theory Spec2Isabelle
  imports Complex_Main
begin

section \<open>Python values\<close>

text \<open>
  The scripts handle three kinds of data: values decoded from JSON response bodies,
  Python strings, and exceptions. A Python \<open>str\<close> is modelled by its UTF-8 bytes
  (\<^typ>\<open>string\<close>); the functions that depend on code points (\<open>len\<close>, slicing) count
  lead bytes. A JSON number with a fraction is a rational.
\<close>

datatype json =
    JNull
  | JBool bool
  | JInt int
  | JFloat rat
  | JStr string
  | JList "json list"
  | JDict "(string \<times> json) list"

text \<open>Every exception below is a subclass of Python's \<open>Exception\<close>.\<close>

datatype exn =
    AttributeError
  | KeyError
  | TypeError
  | ValueError
  | ConnectionError
  | SocketError
  | SMTPException
  | HeaderParseError
  | FileNotFoundError
  | EOFError

text \<open>Truth value of a Python object, as \<open>if x\<close>, \<open>not x\<close> and \<open>x and y\<close> test it.\<close>

fun py_truthy :: "json \<Rightarrow> bool" where
  "py_truthy JNull = False"
| "py_truthy (JBool b) = b"
| "py_truthy (JInt i) = (i \<noteq> 0)"
| "py_truthy (JFloat r) = (r \<noteq> 0)"
| "py_truthy (JStr s) = (s \<noteq> [])"
| "py_truthy (JList xs) = (xs \<noteq> [])"
| "py_truthy (JDict kvs) = (kvs \<noteq> [])"

text \<open>\<open>x.get(k, d)\<close>: only a dict has the method; anything else raises AttributeError.\<close>

fun py_get :: "json \<Rightarrow> string \<Rightarrow> json \<Rightarrow> exn + json" where
  "py_get (JDict kvs) k d = Inr (case map_of kvs k of Some v \<Rightarrow> v | None \<Rightarrow> d)"
| "py_get _ k d = Inl AttributeError"

text \<open>\<open>k in x\<close> for a string key \<open>k\<close>.\<close>

fun is_infix :: "string \<Rightarrow> string \<Rightarrow> bool" where
  "is_infix k [] = (k = [])"
| "is_infix k (c # cs) = (take (length k) (c # cs) = k \<or> is_infix k cs)"

fun py_in :: "string \<Rightarrow> json \<Rightarrow> exn + bool" where
  "py_in k (JDict kvs) = Inr (map_of kvs k \<noteq> None)"
| "py_in k (JList xs) = Inr (JStr k \<in> set xs)"
| "py_in k (JStr s) = Inr (is_infix k s)"
| "py_in k _ = Inl TypeError"

text \<open>\<open>x[k]\<close> for a string key \<open>k\<close>.\<close>

fun py_item :: "json \<Rightarrow> string \<Rightarrow> exn + json" where
  "py_item (JDict kvs) k = (case map_of kvs k of Some v \<Rightarrow> Inr v | None \<Rightarrow> Inl KeyError)"
| "py_item _ k = Inl TypeError"

text \<open>\<open>len(x)\<close>; a string's length is its number of code points.\<close>

definition is_cont :: "char \<Rightarrow> bool" where
  "is_cont c = (128 \<le> (of_char c :: nat) \<and> (of_char c :: nat) < 192)"

definition cp_length :: "string \<Rightarrow> nat" where
  "cp_length s = length (filter (\<lambda>c. \<not> is_cont c) s)"

fun py_len :: "json \<Rightarrow> exn + nat" where
  "py_len (JStr s) = Inr (cp_length s)"
| "py_len (JList xs) = Inr (length xs)"
| "py_len (JDict kvs) = Inr (length kvs)"
| "py_len _ = Inl TypeError"



text \<open>\<open>isinstance(x, str)\<close>, \<open>isinstance(x, list)\<close> and \<open>isinstance(x, dict)\<close>.\<close>

fun is_str :: "json \<Rightarrow> bool" where
  "is_str (JStr s) = True"
| "is_str _ = False"

fun is_list :: "json \<Rightarrow> bool" where
  "is_list (JList xs) = True"
| "is_list _ = False"

fun is_dict :: "json \<Rightarrow> bool" where
  "is_dict (JDict kvs) = True"
| "is_dict _ = False"

text \<open>\<open>str(n)\<close> for an integer: its decimal digits.\<close>

definition digit_char :: "nat \<Rightarrow> char" where
  "digit_char d = char_of (48 + d)"

function str_nat :: "nat \<Rightarrow> string" where
  "str_nat n = (if n < 10 then [digit_char n] else str_nat (n div 10) @ [digit_char (n mod 10)])"
  by pat_completeness auto
termination
  by (relation "measure id") auto

definition str_int :: "int \<Rightarrow> string" where
  "str_int i = (if i < 0 then CHR ''-'' # str_nat (nat (- i)) else str_nat (nat i))"

section \<open>HTTP\<close>

text \<open>
  A \<open>requests\<close> call either raises or returns a response. \<open>json_body\<close> is what
  \<open>response.json()\<close> returns, \<open>None\<close> when the body does not decode (it raises
  ValueError).
\<close>

record response =
  status_code :: int
  json_body :: "json option"
  text_body :: string

type_synonym http_result = "exn + response"

definition response_json :: "response \<Rightarrow> exn + json" where
  "response_json r = (case json_body r of None \<Rightarrow> Inl ValueError | Some j \<Rightarrow> Inr j)"

section \<open>scripts/ws/simple_debug.py\<close>

datatype service = Backend | MailSvc | WebSocketSvc | IntegrationSvc

datatype field =
    IsRunning | Port | ConnectedClients | TotalSubscriptions
  | IsHealthy | TotalMails | SuccessfulBroadcasts | FailedBroadcasts

text \<open>The mailbox dict that \<open>create_mailbox\<close> returns, with its three fixed keys.\<close>

record mailbox =
  address :: json
  mailboxId :: json
  token :: json

text \<open>
  One constructor for each \<open>print\<close> that reports an outcome, in this script and in
  the two interactive ones below, with the values the line interpolates. Banners and
  separator lines are left out. \<open>Input\<close> is a call of \<open>input()\<close>.
\<close>

datatype out =
    ServiceOk service
  | ServiceField service field json
  | ServiceHttp service int
  | ServiceFailed service exn
  | MailboxCreated json
  | MailboxApiError string
  | MailboxHttpError int string
  | MailboxException exn
  | MailSent
  | MailSendFailed exn
  | MailCount nat
  | MailLine nat json json
  | MailBadFormat nat
  | MailHttpError int string
  | MailException exn
  | TestTerminated
  | WaitingLine nat
  | ResultReceived bool
  | MailboxIdLine json
  | MailboxTokenLine json
  | MailboxFailed
  | MailboxHttpStatus int
  | NumberedSent nat
  | NumberedFailed nat exn
  | PauseNote nat
  | IntegrationHealthy bool
  | SuccessRate json

datatype event =
    Print out
  | Input
  | GetHealth service
  | PostGenerate
  | SmtpConnect string nat
  | SmtpSendmail string json
  | SmtpQuit
  | Sleep nat
  | GetMail json json

subsection \<open>check_services\<close>

fun field_key :: "field \<Rightarrow> string" where
  "field_key IsRunning = ''isRunning''"
| "field_key Port = ''port''"
| "field_key ConnectedClients = ''connectedClients''"
| "field_key TotalSubscriptions = ''totalSubscriptions''"
| "field_key IsHealthy = ''isHealthy''"
| "field_key TotalMails = ''totalMails''"
| "field_key SuccessfulBroadcasts = ''successfulBroadcasts''"
| "field_key FailedBroadcasts = ''failedBroadcasts''"

text \<open>The second argument of each \<open>.get\<close> in \<open>check_services\<close>.\<close>

fun field_default :: "field \<Rightarrow> json" where
  "field_default IsRunning = JBool False"
| "field_default Port = JStr ''unknown''"
| "field_default ConnectedClients = JInt 0"
| "field_default TotalSubscriptions = JInt 0"
| "field_default IsHealthy = JBool False"
| "field_default TotalMails = JInt 0"
| "field_default SuccessfulBroadcasts = JInt 0"
| "field_default FailedBroadcasts = JInt 0"

text \<open>The section of the health snapshot each branch reads, and the fields it prints, in order.\<close>

fun section_key :: "service \<Rightarrow> string" where
  "section_key Backend = []"
| "section_key MailSvc = ''mailService''"
| "section_key WebSocketSvc = ''websocket''"
| "section_key IntegrationSvc = ''integration''"

fun service_fields :: "service \<Rightarrow> field list" where
  "service_fields Backend = []"
| "service_fields MailSvc = [IsRunning, Port]"
| "service_fields WebSocketSvc = [ConnectedClients, TotalSubscriptions]"
| "service_fields IntegrationSvc = [IsHealthy, TotalMails, SuccessfulBroadcasts, FailedBroadcasts]"

text \<open>
  The \<open>print\<close> lines of one branch, one \<open>.get\<close> each; an exception leaves the lines
  already printed and is reported by the \<open>except\<close> clause of the loop body.
\<close>

fun print_fields :: "service \<Rightarrow> json \<Rightarrow> field list \<Rightarrow> out list" where
  "print_fields s info [] = []"
| "print_fields s info (f # fs) =
     (case py_get info (field_key f) (field_default f) of
        Inl e \<Rightarrow> [ServiceFailed s e]
      | Inr v \<Rightarrow> ServiceField s f v # print_fields s info fs)"

definition service_details :: "service \<Rightarrow> json \<Rightarrow> out list" where
  "service_details s data =
     (if s = Backend then []
      else (case py_get data (section_key s) (JDict []) of
              Inl e \<Rightarrow> [ServiceFailed s e]
            | Inr info \<Rightarrow> print_fields s info (service_fields s)))"

definition check_service :: "service \<Rightarrow> http_result \<Rightarrow> out list" where
  "check_service s r =
     (case r of
        Inl e \<Rightarrow> [ServiceFailed s e]
      | Inr resp \<Rightarrow>
          if status_code resp = 200 then
            (case response_json resp of
               Inl e \<Rightarrow> [ServiceFailed s e]
             | Inr data \<Rightarrow> ServiceOk s # service_details s data)
          else [ServiceHttp s (status_code resp)])"

definition services :: "service list" where
  "services = [Backend, MailSvc, WebSocketSvc, IntegrationSvc]"

definition check_services :: "(service \<Rightarrow> http_result) \<Rightarrow> event list" where
  "check_services health =
     concat (map (\<lambda>s. GetHealth s # map Print (check_service s (health s))) services)"

subsection \<open>create_mailbox\<close>

text \<open>
  The body of the \<open>try\<close> after the request has returned: the printed lines and either
  the exception raised or the value returned.
\<close>

definition create_mailbox_body :: "response \<Rightarrow> out list \<times> (exn + mailbox option)" where
  "create_mailbox_body resp =
     (if status_code resp \<in> {200, 201} then
        (case response_json resp of
           Inl e \<Rightarrow> ([], Inl e)
         | Inr result \<Rightarrow>
            (case py_get result ''success'' JNull of
               Inl e \<Rightarrow> ([], Inl e)
             | Inr s \<Rightarrow>
                if py_truthy s \<and> py_in ''data'' result = Inr True then
                  (case py_item result ''data'' of
                     Inl e \<Rightarrow> ([], Inl e)
                   | Inr data \<Rightarrow>
                      (case py_item data ''address'' of
                         Inl e \<Rightarrow> ([], Inl e)
                       | Inr a \<Rightarrow>
                          (case py_item data ''id'' of
                             Inl e \<Rightarrow> ([MailboxCreated a], Inl e)
                           | Inr i \<Rightarrow>
                              (case py_item data ''token'' of
                                 Inl e \<Rightarrow> ([MailboxCreated a], Inl e)
                               | Inr t \<Rightarrow>
                                  ([MailboxCreated a],
                                   Inr (Some \<lparr>address = a, mailboxId = i, token = t\<rparr>))))))
                else ([MailboxApiError (text_body resp)], Inr None)))
      else ([MailboxHttpError (status_code resp) (text_body resp)], Inr None))"

definition create_mailbox :: "http_result \<Rightarrow> event list \<times> mailbox option" where
  "create_mailbox r =
     (case r of
        Inl e \<Rightarrow> ([PostGenerate, Print (MailboxException e)], None)
      | Inr resp \<Rightarrow>
         (case create_mailbox_body resp of
            (ls, Inl e) \<Rightarrow> (PostGenerate # map Print (ls @ [MailboxException e]), None)
          | (ls, Inr m) \<Rightarrow> (PostGenerate # map Print ls, m)))"

subsection \<open>send_test_email\<close>

text \<open>
  What happens in the \<open>try\<close> block of one send: nothing raises, or one of its calls
  does, in the order \<open>smtplib.SMTP(...)\<close>, \<open>msg.as_string()\<close>, \<open>sendmail\<close>, \<open>quit\<close>.
  \<open>as_string\<close> raises HeaderParseError when a header value holds an embedded header
  line.
\<close>

datatype smtp_outcome =
    SmtpOk
  | ConnectRaises exn
  | AsStringRaises exn
  | SendmailRaises exn
  | QuitRaises exn

text \<open>
  The address of these scripts comes from a JSON body and is stored in the \<open>To\<close> header
  as it is. \<open>as_string\<close> calls \<open>encode\<close> on a header value that is neither a string nor
  \<open>None\<close>, which raises AttributeError; a \<open>None\<close> header is skipped, and \<open>sendmail\<close>
  then raises TypeError when it iterates over the recipients.
\<close>

definition as_string_error :: "smtp_outcome \<Rightarrow> json \<Rightarrow> exn option" where
  "as_string_error oc to_address =
     (if is_str to_address \<or> to_address = JNull
      then (case oc of AsStringRaises e \<Rightarrow> Some e | _ \<Rightarrow> None)
      else Some AttributeError)"

definition sendmail_error :: "smtp_outcome \<Rightarrow> json \<Rightarrow> exn option" where
  "sendmail_error oc to_address =
     (case oc of
        SendmailRaises e \<Rightarrow> Some e
      | _ \<Rightarrow> if to_address = JNull then Some TypeError else None)"

text \<open>
  \<open>server = smtplib.SMTP("localhost", 2525); server.sendmail(sender, to, msg.as_string());
  server.quit()\<close>: the calls made and the exception raised, if any.
\<close>

definition smtp_block :: "smtp_outcome \<Rightarrow> string \<Rightarrow> json \<Rightarrow> event list \<times> exn option" where
  "smtp_block oc sender to_address =
     (case oc of
        ConnectRaises e \<Rightarrow> ([SmtpConnect ''localhost'' 2525], Some e)
      | _ \<Rightarrow>
         (case as_string_error oc to_address of
            Some e \<Rightarrow> ([SmtpConnect ''localhost'' 2525], Some e)
          | None \<Rightarrow>
             (case sendmail_error oc to_address of
                Some e \<Rightarrow>
                  ([SmtpConnect ''localhost'' 2525, SmtpSendmail sender to_address], Some e)
              | None \<Rightarrow>
                 (case oc of
                    QuitRaises e \<Rightarrow>
                      ([SmtpConnect ''localhost'' 2525, SmtpSendmail sender to_address,
                        SmtpQuit], Some e)
                  | _ \<Rightarrow>
                      ([SmtpConnect ''localhost'' 2525, SmtpSendmail sender to_address,
                        SmtpQuit], None)))))"

definition send_test_email_debug :: "smtp_outcome \<Rightarrow> json \<Rightarrow> event list \<times> bool" where
  "send_test_email_debug oc to_address =
     (case smtp_block oc ''debug-test@example.com'' to_address of
        (evs, Some e) \<Rightarrow> (evs @ [Print (MailSendFailed e)], False)
      | (evs, None) \<Rightarrow> (evs @ [Print MailSent], True))"

subsection \<open>check_mailbox_emails\<close>

text \<open>The code points of a string, which iterating over a \<open>str\<close> yields.\<close>

function cp_split :: "string \<Rightarrow> string list" where
  "cp_split [] = []"
| "cp_split (c # cs) = (c # takeWhile is_cont cs) # cp_split (dropWhile is_cont cs)"
  by pat_completeness auto
termination
  by (relation "measure length") (auto simp: length_dropWhile_le le_imp_less_Suc)

text \<open>\<open>iter(x)\<close> for the values \<open>len\<close> accepts: a dict yields its keys.\<close>

fun py_iter :: "json \<Rightarrow> json list" where
  "py_iter (JList xs) = xs"
| "py_iter (JDict kvs) = map (\<lambda>kv. JStr (fst kv)) kvs"
| "py_iter (JStr s) = map JStr (cp_split s)"
| "py_iter _ = []"

text \<open>The two non-ASCII defaults of the listing, \<open>no subject\<close> and \<open>unknown\<close>, in UTF-8.\<close>

definition no_subject :: string where
  "no_subject = map char_of [230, 151, 160, 228, 184, 187, 233, 162, 152 :: nat]"

definition unknown_sender :: string where
  "unknown_sender = map char_of [230, 156, 170, 231, 159, 165 :: nat]"

text \<open>The line printed for the \<open>i\<close>-th entry (\<open>enumerate(emails, 1)\<close>).\<close>

fun email_line :: "nat \<Rightarrow> json \<Rightarrow> out" where
  "email_line i (JDict kvs) =
     MailLine i (case map_of kvs ''subject'' of Some v \<Rightarrow> v | None \<Rightarrow> JStr no_subject)
                (case map_of kvs ''from'' of Some v \<Rightarrow> v | None \<Rightarrow> JStr unknown_sender)"
| "email_line i _ = MailBadFormat i"

fun email_lines :: "nat \<Rightarrow> json list \<Rightarrow> out list" where
  "email_lines i [] = []"
| "email_lines i (e # es) = email_line i e # email_lines (Suc i) es"

text \<open>
  The body of the \<open>try\<close> after the request has returned. The value returned is a Python
  object: \<open>JList []\<close> is the empty list.
\<close>

definition check_mailbox_emails_body :: "response \<Rightarrow> out list \<times> (exn + json)" where
  "check_mailbox_emails_body resp =
     (if status_code resp = 200 then
        (case response_json resp of
           Inl e \<Rightarrow> ([], Inl e)
         | Inr result \<Rightarrow>
            (case py_get result ''success'' JNull of
               Inl e \<Rightarrow> ([], Inl e)
             | Inr s \<Rightarrow>
                (case (if py_truthy s \<and> py_in ''data'' result = Inr True
                       then py_item result ''data''
                       else Inr (if is_list result then result else JList [])) of
                   Inl e \<Rightarrow> ([], Inl e)
                 | Inr emails \<Rightarrow>
                    (case py_len emails of
                       Inl e \<Rightarrow> ([], Inl e)
                     | Inr n \<Rightarrow>
                        (MailCount n # email_lines 1 (py_iter emails), Inr emails)))))
      else ([MailHttpError (status_code resp) (text_body resp)], Inr (JList [])))"

definition check_mailbox_emails :: "http_result \<Rightarrow> json \<Rightarrow> json \<Rightarrow> event list \<times> json" where
  "check_mailbox_emails r mailbox_id tok =
     (case r of
        Inl e \<Rightarrow> ([GetMail mailbox_id tok, Print (MailException e)], JList [])
      | Inr resp \<Rightarrow>
         (case check_mailbox_emails_body resp of
            (ls, Inl e) \<Rightarrow>
              (GetMail mailbox_id tok # map Print (ls @ [MailException e]), JList [])
          | (ls, Inr emails) \<Rightarrow> (GetMail mailbox_id tok # map Print ls, emails)))"

subsection \<open>main\<close>

text \<open>
  What the services answer during one run. The retrieval endpoint's answer depends on
  the seconds slept since the mail was sent, and on the identifier and token presented.
\<close>

record world =
  health :: "service \<Rightarrow> http_result"
  generate :: http_result
  smtp :: smtp_outcome
  mail :: "nat \<Rightarrow> json \<Rightarrow> json \<Rightarrow> http_result"

text \<open>Step 4 of \<open>main\<close>: \<open>for i in range(10): time.sleep(1); print(...)\<close>.\<close>

definition wait_loop :: "event list" where
  "wait_loop = concat (map (\<lambda>i. [Sleep 1, Print (WaitingLine (i + 1))]) [0..<10])"

fun slept :: "event list \<Rightarrow> nat" where
  "slept [] = 0"
| "slept (Sleep n # es) = n + slept es"
| "slept (_ # es) = slept es"

text \<open>Steps 5 and 6, given the mailbox: returns the events and the exception that escapes, if any.\<close>

definition check_and_report :: "world \<Rightarrow> mailbox \<Rightarrow> event list \<times> exn option" where
  "check_and_report w mb =
     (case check_mailbox_emails (mail w (slept wait_loop) (mailboxId mb) (token mb))
             (mailboxId mb) (token mb) of
        (evs, emails) \<Rightarrow>
          (case py_len emails of
             Inl e \<Rightarrow> (evs, Some e)
           | Inr n \<Rightarrow> (evs @ [Print (ResultReceived (0 < n))], None)))"

definition main :: "world \<Rightarrow> event list \<times> exn option" where
  "main w =
     (case create_mailbox (generate w) of
        (evs1, None) \<Rightarrow> (check_services (health w) @ evs1 @ [Print TestTerminated], None)
      | (evs1, Some mb) \<Rightarrow>
         (case send_test_email_debug (smtp w) (address mb) of
            (evs2, False) \<Rightarrow>
              (check_services (health w) @ evs1 @ evs2 @ [Print TestTerminated], None)
          | (evs2, True) \<Rightarrow>
             (case check_and_report w mb of
                (evs3, x) \<Rightarrow>
                  (check_services (health w) @ evs1 @ evs2 @ wait_loop @ evs3, x))))"


section \<open>scripts/send_test_email.py\<close>

text \<open>The message a script builds: the MIME subtype of the container, the three headers, and
  the attached parts (subtype and text, all in UTF-8).\<close>

record mime_message =
  mime_subtype :: string
  msg_from :: string
  msg_to :: string
  msg_subject :: string
  msg_parts :: "(string \<times> string) list"

text \<open>The parsed command line.\<close>

record args =
  email :: string
  subject :: string
  content :: string
  html :: bool
  multiple :: int

datatype inj_out =
    SentTo string
  | SubjectLine string
  | SendFailed exn
  | HtmlSentTo string
  | HtmlSendFailed exn
  | Summary nat int
  | ViewHint

datatype inj_event =
    IConnect string nat
  | ISendmail string string mime_message
  | IQuit
  | IPrint inj_out

subsection \<open>send_test_email\<close>

text \<open>
  The message is built before the \<open>try\<close> from the strings of the command line, which
  does not raise; the four calls of the \<open>try\<close> are \<open>smtplib.SMTP(...)\<close>,
  \<open>msg.as_string()\<close>, \<open>sendmail\<close> and \<open>quit\<close>.
\<close>

definition plain_message :: "string \<Rightarrow> string \<Rightarrow> string \<Rightarrow> mime_message" where
  "plain_message to_address subj cont =
     \<lparr>mime_subtype = ''mixed'', msg_from = ''test@example.com'', msg_to = to_address,
      msg_subject = subj, msg_parts = [(''plain'', cont)]\<rparr>"

definition send_test_email ::
  "smtp_outcome \<Rightarrow> string \<Rightarrow> string \<Rightarrow> string \<Rightarrow> inj_event list \<times> bool" where
  "send_test_email oc to_address subj cont =
     (let msg = plain_message to_address subj cont in
      case oc of
        ConnectRaises e \<Rightarrow>
          ([IConnect ''localhost'' 1025, IPrint (SendFailed e)], False)
      | AsStringRaises e \<Rightarrow>
          ([IConnect ''localhost'' 1025, IPrint (SendFailed e)], False)
      | SendmailRaises e \<Rightarrow>
          ([IConnect ''localhost'' 1025, ISendmail ''test@example.com'' to_address msg,
            IPrint (SendFailed e)], False)
      | QuitRaises e \<Rightarrow>
          ([IConnect ''localhost'' 1025, ISendmail ''test@example.com'' to_address msg,
            IQuit, IPrint (SendFailed e)], False)
      | SmtpOk \<Rightarrow>
          ([IConnect ''localhost'' 1025, ISendmail ''test@example.com'' to_address msg,
            IQuit, IPrint (SentTo to_address), IPrint (SubjectLine subj)], True))"

subsection \<open>send_html_email\<close>

text \<open>The three literals of \<open>send_html_email\<close>, byte for byte.\<close>

definition html_content :: string where
  "html_content =
     map char_of [10 :: nat] @
     ''    <html>'' @
     map char_of [10 :: nat] @
     ''      <body>'' @
     map char_of [10 :: nat] @
     ''        <h2>'' @
     map char_of [240, 159, 142, 137 :: nat] @
     '' HTML '' @
     map char_of [230, 181, 139, 232, 175, 149, 233, 130, 174, 228, 187, 182 :: nat] @
     ''</h2>'' @
     map char_of [10 :: nat] @
     ''        <p>'' @
     map char_of [232, 191, 153, 230, 152, 175, 228, 184, 128, 229, 176, 129, 229, 140, 133, 229, 144, 171 :: nat] @
     '' <strong>HTML '' @
     map char_of [230, 160, 188, 229, 188, 143 :: nat] @
     ''</strong> '' @
     map char_of [231, 154, 132, 230, 181, 139, 232, 175, 149, 233, 130, 174, 228, 187, 182, 227, 128, 130 :: nat] @
     ''</p>'' @
     map char_of [10 :: nat] @
     ''        <ul>'' @
     map char_of [10 :: nat] @
     ''          <li>'' @
     map char_of [230, 148, 175, 230, 140, 129 :: nat] @
     '' HTML '' @
     map char_of [230, 160, 188, 229, 188, 143 :: nat] @
     ''</li>'' @
     map char_of [10 :: nat] @
     ''          <li>'' @
     map char_of [230, 148, 175, 230, 140, 129, 228, 184, 173, 230, 150, 135, 229, 134, 133, 229, 174, 185 :: nat] @
     ''</li>'' @
     map char_of [10 :: nat] @
     ''          <li>'' @
     map char_of [230, 148, 175, 230, 140, 129, 232, 161, 168, 230, 131, 133, 231, 172, 166, 229, 143, 183 :: nat] @
     '' '' @
     map char_of [240, 159, 152, 138 :: nat] @
     ''</li>'' @
     map char_of [10 :: nat] @
     ''        </ul>'' @
     map char_of [10 :: nat] @
     ''        <p><a href='' @
     map char_of [34 :: nat] @
     ''https://mail.nnu.edu.kg'' @
     map char_of [34 :: nat] @
     ''>'' @
     map char_of [232, 174, 191, 233, 151, 174, 228, 184, 180, 230, 151, 182, 233, 130, 174, 231, 174, 177 :: nat] @
     map char_of [230, 156, 141, 229, 138, 161 :: nat] @
     ''</a></p>'' @
     map char_of [10 :: nat] @
     ''      </body>'' @
     map char_of [10 :: nat] @
     ''    </html>'' @
     map char_of [10 :: nat] @
     ''    ''"

definition html_subject :: string where
  "html_subject =
     ''HTML '' @
     map char_of [230, 160, 188, 229, 188, 143, 230, 181, 139, 232, 175, 149, 233, 130, 174, 228, 187, 182 :: nat]"

definition html_text_part :: string where
  "html_text_part =
     map char_of [232, 191, 153, 230, 152, 175, 231, 186, 175, 230, 150, 135, 230, 156, 172, 231, 137, 136 :: nat] @
     map char_of [230, 156, 172, 231, 154, 132, 230, 181, 139, 232, 175, 149, 233, 130, 174, 228, 187, 182 :: nat]"

definition html_message :: "string \<Rightarrow> mime_message" where
  "html_message to_address =
     \<lparr>mime_subtype = ''alternative'', msg_from = ''html-test@example.com'',
      msg_to = to_address, msg_subject = html_subject,
      msg_parts = [(''plain'', html_text_part), (''html'', html_content)]\<rparr>"

definition send_html_email :: "smtp_outcome \<Rightarrow> string \<Rightarrow> inj_event list \<times> bool" where
  "send_html_email oc to_address =
     (let msg = html_message to_address in
      case oc of
        ConnectRaises e \<Rightarrow>
          ([IConnect ''localhost'' 1025, IPrint (HtmlSendFailed e)], False)
      | AsStringRaises e \<Rightarrow>
          ([IConnect ''localhost'' 1025, IPrint (HtmlSendFailed e)], False)
      | SendmailRaises e \<Rightarrow>
          ([IConnect ''localhost'' 1025, ISendmail ''html-test@example.com'' to_address msg,
            IPrint (HtmlSendFailed e)], False)
      | QuitRaises e \<Rightarrow>
          ([IConnect ''localhost'' 1025, ISendmail ''html-test@example.com'' to_address msg,
            IQuit, IPrint (HtmlSendFailed e)], False)
      | SmtpOk \<Rightarrow>
          ([IConnect ''localhost'' 1025, ISendmail ''html-test@example.com'' to_address msg,
            IQuit, IPrint (HtmlSentTo to_address)], True))"

subsection \<open>main\<close>

text \<open>The label between the content and the message number, two newlines included.\<close>

definition number_label :: string where
  "number_label =
     map char_of [10, 10, 233, 130, 174, 228, 187, 182, 231, 188, 150, 229, 143, 183 :: nat] @
     '': ''"

text \<open>The subject and content of iteration \<open>i\<close> (counted from 0) in plain mode.\<close>

definition subject_for :: "args \<Rightarrow> nat \<Rightarrow> string" where
  "subject_for a i =
     (if multiple a > 1 then subject a @ '' #'' @ str_int (int i + 1) else subject a)"

definition content_for :: "args \<Rightarrow> nat \<Rightarrow> string" where
  "content_for a i =
     (if multiple a > 1
      then content a @ number_label @ str_int (int i + 1) @ ''/'' @ str_int (multiple a)
      else content a)"

text \<open>The message iteration \<open>i\<close> constructs.\<close>

definition message_for :: "args \<Rightarrow> nat \<Rightarrow> mime_message" where
  "message_for a i =
     (if html a then html_message (email a)
      else plain_message (email a) (subject_for a i) (content_for a i))"

definition iteration :: "args \<Rightarrow> smtp_outcome \<Rightarrow> nat \<Rightarrow> inj_event list \<times> bool" where
  "iteration a oc i =
     (if html a then send_html_email oc (email a)
      else send_test_email oc (email a) (subject_for a i) (content_for a i))"

text \<open>
  The loop \<open>for i in range(args.multiple)\<close> with its counter; \<open>sessions i\<close> is what happens
  to the SMTP session of iteration \<open>i\<close>.
\<close>

fun send_loop ::
  "args \<Rightarrow> (nat \<Rightarrow> smtp_outcome) \<Rightarrow> nat list \<Rightarrow> nat \<Rightarrow> inj_event list \<times> nat" where
  "send_loop a sessions [] success_count = ([], success_count)"
| "send_loop a sessions (i # rest) success_count =
     (case iteration a (sessions i) i of
        (evs, success) \<Rightarrow>
          (case send_loop a sessions rest (if success then success_count + 1 else success_count) of
             (evs', c) \<Rightarrow> (evs @ evs', c)))"

text \<open>\<open>range(n)\<close> is empty when \<open>n\<close> is not positive.\<close>

definition py_range :: "int \<Rightarrow> nat list" where
  "py_range n = [0..<nat n]"

definition inject_main :: "args \<Rightarrow> (nat \<Rightarrow> smtp_outcome) \<Rightarrow> inj_event list \<times> nat \<times> exn option" where
  "inject_main a sessions =
     (case send_loop a sessions (py_range (multiple a)) 0 of
        (evs, success_count) \<Rightarrow>
          (evs @ [IPrint (Summary success_count (multiple a))] @
             (if success_count > 0 then [IPrint ViewHint] else []),
           success_count, None))"


section \<open>scripts/ws/test_websocket_validation.py\<close>




text \<open>The dict \<open>test_mailbox_id_format\<close> returns.\<close>

record mailbox_info =
  mailbox_id :: json
  info_token :: json
  info_address :: json








section \<open>scripts/ws/test_current_setup.py\<close>






section \<open>send_test_mail.py\<close>





section \<open>test_external_email.py\<close>


section \<open>scripts/ws/manual_websocket_test.py\<close>




section \<open>scripts/ws/test_frontend_websocket.py\<close>





section \<open>Observations on a run\<close>

text \<open>The retrieval requests of a trace, the seconds slept before the first of them, and the
  events that belong to the phases after provisioning.\<close>

fun retrievals :: "event list \<Rightarrow> (json \<times> json) list" where
  "retrievals [] = []"
| "retrievals (GetMail i t # es) = (i, t) # retrievals es"
| "retrievals (_ # es) = retrievals es"

fun slept_before_retrieval :: "event list \<Rightarrow> nat" where
  "slept_before_retrieval [] = 0"
| "slept_before_retrieval (GetMail i t # es) = 0"
| "slept_before_retrieval (Sleep n # es) = n + slept_before_retrieval es"
| "slept_before_retrieval (_ # es) = slept_before_retrieval es"

fun sleeps :: "event list \<Rightarrow> nat list" where
  "sleeps [] = []"
| "sleeps (Sleep n # es) = n # sleeps es"
| "sleeps (_ # es) = sleeps es"

fun later_phase :: "event \<Rightarrow> bool" where
  "later_phase (SmtpConnect h p) = True"
| "later_phase (SmtpSendmail f t) = True"
| "later_phase SmtpQuit = True"
| "later_phase (Sleep n) = True"
| "later_phase (GetMail i t) = True"
| "later_phase _ = False"

text \<open>The sessions an injection run opens and the messages it submits.\<close>

fun opened :: "inj_event list \<Rightarrow> nat" where
  "opened [] = 0"
| "opened (IConnect h p # es) = Suc (opened es)"
| "opened (_ # es) = opened es"

fun submitted :: "inj_event list \<Rightarrow> mime_message list" where
  "submitted [] = []"
| "submitted (ISendmail f t m # es) = m # submitted es"
| "submitted (_ # es) = submitted es"

text \<open>The outcomes that end the \<open>try\<close> before \<open>sendmail\<close> is called.\<close>

fun ends_before_sendmail :: "smtp_outcome \<Rightarrow> bool" where
  "ends_before_sendmail (ConnectRaises e) = True"
| "ends_before_sendmail (AsStringRaises e) = True"
| "ends_before_sendmail _ = False"

text \<open>The failure line an iteration of the injector prints for an exception.\<close>

definition failure_line :: "args \<Rightarrow> exn \<Rightarrow> inj_event" where
  "failure_line a e = IPrint (if html a then HtmlSendFailed e else SendFailed e)"

text \<open>The exception an outcome stands for, if any.\<close>

fun raised :: "smtp_outcome \<Rightarrow> exn option" where
  "raised SmtpOk = None"
| "raised (ConnectRaises e) = Some e"
| "raised (AsStringRaises e) = Some e"
| "raised (SendmailRaises e) = Some e"
| "raised (QuitRaises e) = Some e"




text \<open>
  The envelope of the provisioning endpoint as the interface description gives it:
  an object with \<open>success\<close> and with \<open>data\<close>, itself an object with \<open>id\<close>, \<open>address\<close>
  and \<open>token\<close>. Provisioning has failed when the request raises, the status is not 2xx,
  or the body is not such an envelope.
\<close>

definition well_formed_envelope :: "json \<Rightarrow> bool" where
  "well_formed_envelope j =
     (case j of
        JDict kvs \<Rightarrow>
          map_of kvs ''success'' \<noteq> None \<and>
          (case map_of kvs ''data'' of
             Some (JDict d) \<Rightarrow>
               map_of d ''id'' \<noteq> None \<and> map_of d ''address'' \<noteq> None \<and> map_of d ''token'' \<noteq> None
           | _ \<Rightarrow> False)
      | _ \<Rightarrow> False)"

definition provision_failed :: "http_result \<Rightarrow> bool" where
  "provision_failed r =
     (case r of
        Inl e \<Rightarrow> True
      | Inr resp \<Rightarrow>
          status_code resp < 200 \<or> 299 < status_code resp \<or>
          (case json_body resp of None \<Rightarrow> True | Some j \<Rightarrow> \<not> well_formed_envelope j))"

section \<open>Sample inputs\<close>

definition ok_response :: "json \<Rightarrow> response" where
  "ok_response j = \<lparr>status_code = 200, json_body = Some j, text_body = []\<rparr>"

definition sample_mailbox :: json where
  "sample_mailbox =
     JDict [(''success'', JBool True),
            (''data'', JDict [(''id'', JStr ''507f1f77bcf86cd799439011''),
                              (''address'', JStr ''abc@nnu.edu.kg''),
                              (''token'', JStr ''tok'')])]"


definition one_email :: json where
  "one_email = JDict [(''subject'', JStr ''hello''), (''from'', JStr ''debug-test@example.com'')]"

text \<open>A backend where everything works and the mail is retrievable from the first second.\<close>

definition world_ready :: world where
  "world_ready =
     \<lparr>health = (\<lambda>s. Inr (ok_response (JDict []))),
      generate = Inr (ok_response sample_mailbox),
      smtp = SmtpOk,
      mail = (\<lambda>clock i t. Inr (ok_response (JDict [(''success'', JBool True),
                                                    (''data'', JList [one_email])])))\<rparr>"

text \<open>A backend that answers the provisioning call with HTTP 500.\<close>

definition world_down :: world where
  "world_down =
     \<lparr>health = (\<lambda>s. Inl ConnectionError),
      generate = Inr \<lparr>status_code = 500, json_body = None, text_body = ''Internal Server Error''\<rparr>,
      smtp = SmtpOk,
      mail = (\<lambda>clock i t. Inl ConnectionError)\<rparr>"

definition plain_args :: args where
  "plain_args = \<lparr>email = ''abc@nnu.edu.kg'', subject = ''Test'', content = ''body'',
                  html = False, multiple = 3\<rparr>"

definition html_args :: args where
  "html_args = \<lparr>email = ''abc@nnu.edu.kg'', subject = ''Test'', content = ''body'',
                 html = True, multiple = 2\<rparr>"

definition html_args' :: args where
  "html_args' = \<lparr>email = ''abc@nnu.edu.kg'', subject = ''Other'', content = ''text'',
                  html = True, multiple = 2\<rparr>"

text \<open>The second of three sessions fails while sending.\<close>

definition second_fails :: "nat \<Rightarrow> smtp_outcome" where
  "second_fails i = (if i = 1 then SendmailRaises SMTPException else SmtpOk)"


text \<open>A backend that works but hands out a number as the address of the mailbox.\<close>

definition world_numeric_address :: world where
  "world_numeric_address =
     \<lparr>health = (\<lambda>s. Inr (ok_response (JDict []))),
      generate = Inr (ok_response
        (JDict [(''success'', JBool True),
                (''data'', JDict [(''id'', JStr ''507f1f77bcf86cd799439011''),
                                  (''address'', JInt 123),
                                  (''token'', JStr ''tok'')])])),
      smtp = SmtpOk,
      mail = (\<lambda>clock i t. Inr (ok_response (JDict [(''success'', JBool True),
                                                    (''data'', JList [one_email])])))\<rparr>"

text \<open>Every message has a header that \<open>as_string\<close> refuses.\<close>

definition header_refused :: "nat \<Rightarrow> smtp_outcome" where
  "header_refused i = AsStringRaises HeaderParseError"

section \<open>Properties\<close>

subsection \<open>Provisioning\<close>

lemma create_mailbox_body_Some:
  "create_mailbox_body resp = (ls, Inr (Some mb)) \<Longrightarrow>
     status_code resp \<in> {200, 201} \<and>
     (\<exists>kvs d. json_body resp = Some (JDict kvs) \<and> map_of kvs ''success'' \<noteq> None \<and>
        map_of kvs ''data'' = Some (JDict d) \<and> map_of d ''address'' = Some (address mb) \<and>
        map_of d ''id'' = Some (mailboxId mb) \<and> map_of d ''token'' = Some (token mb))"
  unfolding create_mailbox_body_def response_json_def
  apply (auto split: if_splits option.splits sum.splits)
  subgoal for j s data a i t
    apply (cases j; simp)
    apply (cases data; simp split: option.splits)
    done
  subgoal for j s data a i t
    apply (cases j; simp)
    apply (cases data; simp split: option.splits)
    done
  done

lemma create_mailbox_Some:
  "snd (create_mailbox r) = Some mb \<Longrightarrow>
     (\<exists>resp kvs d. r = Inr resp \<and> status_code resp \<in> {200, 201} \<and>
        json_body resp = Some (JDict kvs) \<and> map_of kvs ''success'' \<noteq> None \<and>
        map_of kvs ''data'' = Some (JDict d) \<and> map_of d ''address'' = Some (address mb) \<and>
        map_of d ''id'' = Some (mailboxId mb) \<and> map_of d ''token'' = Some (token mb))"
  unfolding create_mailbox_def
  by (auto split: sum.splits prod.splits dest!: create_mailbox_body_Some)

lemma provision_failed_None: "provision_failed r \<Longrightarrow> snd (create_mailbox r) = None"
proof (rule ccontr)
  assume pf: "provision_failed r" and "snd (create_mailbox r) \<noteq> None"
  then obtain mb where "snd (create_mailbox r) = Some mb" by auto
  from create_mailbox_Some[OF this] pf show False
    by (auto simp: provision_failed_def well_formed_envelope_def)
qed

lemma check_services_no_later: "e \<in> set (check_services h) \<Longrightarrow> \<not> later_phase e"
  by (auto simp: check_services_def)

lemma create_mailbox_no_later: "e \<in> set (fst (create_mailbox r)) \<Longrightarrow> \<not> later_phase e"
  by (auto simp: create_mailbox_def split: sum.splits prod.splits)

lemma main_no_mailbox:
  "snd (create_mailbox (generate w)) = None \<Longrightarrow>
   main w = (check_services (health w) @ fst (create_mailbox (generate w)) @
               [Print TestTerminated], None)"
  by (cases "create_mailbox (generate w)") (simp add: main_def)

text \<open>
  C1. When the provisioning request raises, answers with a status outside 2xx, or answers
  with a body that is not a \<open>{success, data: {id, address, token}}\<close> envelope,
  \<open>create_mailbox\<close> returns \<open>None\<close>; \<open>main\<close> then prints the termination line and
  returns, and its trace holds no SMTP call, no sleep and no retrieval request.
\<close>

theorem provision_failure_is_fatal:
  assumes "provision_failed (generate w)"
  shows "snd (create_mailbox (generate w)) = None \<and>
         main w = (check_services (health w) @ fst (create_mailbox (generate w)) @
                     [Print TestTerminated], None) \<and>
         (\<forall>e \<in> set (fst (main w)). \<not> later_phase e)"
proof -
  have n: "snd (create_mailbox (generate w)) = None"
    using assms by (rule provision_failed_None)
  have m: "main w = (check_services (health w) @ fst (create_mailbox (generate w)) @
                       [Print TestTerminated], None)"
    using n by (rule main_no_mailbox)
  have "\<forall>e \<in> set (fst (main w)). \<not> later_phase e"
    unfolding m using check_services_no_later create_mailbox_no_later by auto
  with n m show ?thesis by simp
qed

lemma world_down_failed: "provision_failed (generate world_down)"
  by (simp add: provision_failed_def world_down_def)

theorem provision_failure_is_fatal_witness:
  "provision_failed (generate world_down) \<and>
   snd (create_mailbox (generate world_down)) = None \<and>
   snd (main world_down) = None \<and>
   filter later_phase (fst (main world_down)) = []"
  using provision_failure_is_fatal [OF world_down_failed] world_down_failed
  by (simp add: filter_empty_conv)

subsection \<open>Retrieval\<close>







text \<open>
  C4. The legacy form is lost: a 200 response whose body is a bare list makes
  \<open>result.get\<close> raise AttributeError before the \<open>isinstance\<close> test is reached, and
  the function reports the exception and returns the empty list.
\<close>

theorem bare_list_is_dropped:
  "check_mailbox_emails (Inr (ok_response (JList [one_email])))
     (JStr ''507f1f77bcf86cd799439011'') (JStr ''tok'') =
   ([GetMail (JStr ''507f1f77bcf86cd799439011'') (JStr ''tok''),
     Print (MailException AttributeError)], JList [])"
  by (simp add: check_mailbox_emails_def check_mailbox_emails_body_def response_json_def
      ok_response_def)

subsection \<open>Waiting and retrieval in \<open>main\<close>\<close>

lemma retrievals_append [simp]: "retrievals (xs @ ys) = retrievals xs @ retrievals ys"
  by (induction xs rule: retrievals.induct) simp_all

lemma sleeps_append [simp]: "sleeps (xs @ ys) = sleeps xs @ sleeps ys"
  by (induction xs rule: sleeps.induct) simp_all

lemma slept_sum: "slept xs = sum_list (sleeps xs)"
  by (induction xs rule: sleeps.induct) simp_all

lemma slept_before_append:
  "retrievals xs = [] \<Longrightarrow> slept_before_retrieval (xs @ ys) = slept xs + slept_before_retrieval ys"
  by (induction xs rule: retrievals.induct) simp_all

lemma retrievals_prints [simp]: "retrievals (map Print ls) = []"
  by (induction ls) simp_all

lemma sleeps_prints [simp]: "sleeps (map Print ls) = []"
  by (induction ls) simp_all

lemma check_services_quiet [simp]:
  "retrievals (check_services h) = []" "sleeps (check_services h) = []"
  by (simp_all add: check_services_def services_def)

lemma create_mailbox_quiet [simp]:
  "retrievals (fst (create_mailbox r)) = []" "sleeps (fst (create_mailbox r)) = []"
  by (auto simp: create_mailbox_def split: sum.splits prod.splits)

lemma smtp_block_quiet [simp]:
  "retrievals (fst (smtp_block oc sender a)) = []"
  "sleeps (fst (smtp_block oc sender a)) = []"
  by (auto simp: smtp_block_def split: smtp_outcome.splits option.splits)

lemma smtp_block_result:
  "snd (smtp_block oc sender a) = None \<longleftrightarrow> oc = SmtpOk \<and> is_str a"
  by (cases a; cases oc) (simp_all add: smtp_block_def as_string_error_def sendmail_error_def)

lemma send_quiet [simp]:
  "retrievals (fst (send_test_email_debug oc a)) = []"
  "sleeps (fst (send_test_email_debug oc a)) = []"
  by (auto simp: send_test_email_debug_def split: prod.splits option.splits
      dest: arg_cong[where f = fst])

lemma send_result: "snd (send_test_email_debug oc a) = (oc = SmtpOk \<and> is_str a)"
proof -
  obtain evs x where b: "smtp_block oc ''debug-test@example.com'' a = (evs, x)"
    by (cases "smtp_block oc ''debug-test@example.com'' a")
  with smtp_block_result[of oc "''debug-test@example.com''" a]
  have "x = None \<longleftrightarrow> oc = SmtpOk \<and> is_str a" by simp
  with b show ?thesis
    by (cases x) (simp_all add: send_test_email_debug_def)
qed

lemma wait_loop_events [simp]:
  "retrievals wait_loop = []" "sleeps wait_loop = replicate 10 1"
  by (simp_all add: wait_loop_def upt_rec numeral_eq_Suc)

lemma check_mailbox_emails_events [simp]:
  "retrievals (fst (check_mailbox_emails r i t)) = [(i, t)]"
  "sleeps (fst (check_mailbox_emails r i t)) = []"
  by (auto simp: check_mailbox_emails_def split: sum.splits prod.splits)

lemma check_and_report_events [simp]:
  "retrievals (fst (check_and_report w mb)) = [(mailboxId mb, token mb)]"
  "sleeps (fst (check_and_report w mb)) = []"
  "slept_before_retrieval (fst (check_and_report w mb)) = 0"
  by (auto simp: check_and_report_def check_mailbox_emails_def split: sum.splits prod.splits)


lemma main_trace:
  "fst (main w) =
     (case snd (create_mailbox (generate w)) of
        None \<Rightarrow> check_services (health w) @ fst (create_mailbox (generate w)) @
                  [Print TestTerminated]
      | Some mb \<Rightarrow>
          if smtp w = SmtpOk \<and> is_str (address mb) then
            check_services (health w) @ fst (create_mailbox (generate w)) @
              fst (send_test_email_debug (smtp w) (address mb)) @ wait_loop @
              fst (check_and_report w mb)
          else
            check_services (health w) @ fst (create_mailbox (generate w)) @
              fst (send_test_email_debug (smtp w) (address mb)) @ [Print TestTerminated])"
proof (cases "create_mailbox (generate w)")
  case (Pair evs1 m)
  show ?thesis
  proof (cases m)
    case None
    with Pair show ?thesis by (simp add: main_def)
  next
    case (Some mb)
    obtain evs2 ok where s: "send_test_email_debug (smtp w) (address mb) = (evs2, ok)"
      by (cases "send_test_email_debug (smtp w) (address mb)")
    with send_result[of "smtp w" "address mb"]
    have ok: "ok = (smtp w = SmtpOk \<and> is_str (address mb))" by simp
    obtain evs3 x where c: "check_and_report w mb = (evs3, x)"
      by (cases "check_and_report w mb")
    from Pair Some s ok c show ?thesis by (auto simp: main_def)
  qed
qed

text \<open>
  C2, as the code has it. \<open>main\<close> does not poll. When provisioning and sending succeed it
  sleeps ten times one second and only then sends one retrieval request, with the
  identifier and the token of the mailbox; otherwise it neither sleeps nor retrieves.
  Sending succeeds exactly when no call of its \<open>try\<close> raises, which needs a string as
  the address. What the retrieval endpoint would answer has no part in the waiting.
\<close>

theorem fixed_wait_then_one_retrieval:
  "retrievals (fst (main w)) =
     (case snd (create_mailbox (generate w)) of
        None \<Rightarrow> []
      | Some mb \<Rightarrow>
          if snd (send_test_email_debug (smtp w) (address mb))
          then [(mailboxId mb, token mb)] else []) \<and>
   snd (send_test_email_debug (smtp w) a) = (smtp w = SmtpOk \<and> is_str a) \<and>
   sleeps (fst (main w)) = (if retrievals (fst (main w)) = [] then [] else replicate 10 1) \<and>
   slept_before_retrieval (fst (main w)) = slept (fst (main w))"
proof (cases "snd (create_mailbox (generate w))")
  case None
  then show ?thesis
    by (simp add: main_trace slept_sum slept_before_append send_result)
next
  case (Some mb)
  then show ?thesis
    by (simp add: main_trace slept_sum slept_before_append send_result)
qed

theorem fixed_wait_then_one_retrieval_witness:
  "retrievals (fst (main world_ready)) = [(JStr ''507f1f77bcf86cd799439011'', JStr ''tok'')] \<and>
   sleeps (fst (main world_ready)) = replicate 10 1 \<and>
   slept_before_retrieval (fst (main world_ready)) = slept (fst (main world_ready)) \<and>
   smtp world_numeric_address = SmtpOk \<and>
   snd (send_test_email_debug (smtp world_numeric_address) (JInt 123)) = False \<and>
   retrievals (fst (main world_numeric_address)) = [] \<and>
   sleeps (fst (main world_numeric_address)) = []"
proof -
  have r: "retrievals (fst (main world_ready)) = [(JStr ''507f1f77bcf86cd799439011'', JStr ''tok'')]"
    by code_simp
  have m: "snd (create_mailbox (generate world_numeric_address)) =
             Some \<lparr>address = JInt 123, mailboxId = JStr ''507f1f77bcf86cd799439011'',
                   token = JStr ''tok''\<rparr>"
    by code_simp
  have s: "smtp world_numeric_address = SmtpOk"
    by (simp add: world_numeric_address_def)
  from fixed_wait_then_one_retrieval [of world_ready] r
  have 1: "sleeps (fst (main world_ready)) = replicate 10 1"
    and 2: "slept_before_retrieval (fst (main world_ready)) = slept (fst (main world_ready))"
    by simp_all
  from fixed_wait_then_one_retrieval [of world_numeric_address "JInt 123"] m s
  have 3: "snd (send_test_email_debug (smtp world_numeric_address) (JInt 123)) = False"
    and 4: "retrievals (fst (main world_numeric_address)) = []"
    by simp_all
  from fixed_wait_then_one_retrieval [of world_numeric_address] 4
  have 5: "sleeps (fst (main world_numeric_address)) = []"
    by simp
  from r 1 2 s 3 4 5 show ?thesis by simp
qed

text \<open>
  C2 as stated fails: with a backend where the expected message can be retrieved from the
  start, \<open>main\<close> still sleeps the whole ten seconds and sends a single retrieval request.
\<close>

theorem waits_full_budget:
  "py_len (snd (check_mailbox_emails
                  (mail world_ready 0 (JStr ''507f1f77bcf86cd799439011'') (JStr ''tok''))
                  (JStr ''507f1f77bcf86cd799439011'') (JStr ''tok''))) = Inr 1 \<and>
   slept (fst (main world_ready)) = 10 \<and>
   length (retrievals (fst (main world_ready))) = 1"
  by code_simp

subsection \<open>The injector\<close>

lemma opened_append [simp]: "opened (xs @ ys) = opened xs + opened ys"
  by (induction xs rule: opened.induct) simp_all

lemma submitted_append [simp]: "submitted (xs @ ys) = submitted xs @ submitted ys"
  by (induction xs rule: submitted.induct) simp_all

lemma iteration_result: "snd (iteration a oc i) = (oc = SmtpOk)"
  by (auto simp: iteration_def send_html_email_def send_test_email_def Let_def
      split: smtp_outcome.splits)

lemma iteration_opened: "opened (fst (iteration a oc i)) = 1"
  by (auto simp: iteration_def send_html_email_def send_test_email_def Let_def
      split: smtp_outcome.splits)

lemma iteration_submitted:
  "submitted (fst (iteration a oc i)) = (if ends_before_sendmail oc then [] else [message_for a i])"
  by (auto simp: iteration_def message_for_def send_html_email_def send_test_email_def Let_def
      split: smtp_outcome.splits)

lemma iteration_reports:
  "raised oc = Some e \<Longrightarrow> last (fst (iteration a oc i)) = failure_line a e"
  by (cases oc)
     (simp_all add: iteration_def send_html_email_def send_test_email_def failure_line_def)

lemma raised_None: "raised oc = None \<longleftrightarrow> oc = SmtpOk"
  by (cases oc) simp_all

lemma send_loop_events:
  "fst (send_loop a sessions is c) = concat (map (\<lambda>i. fst (iteration a (sessions i) i)) is)"
proof (induction "is" arbitrary: c)
  case Nil
  show ?case by simp
next
  case (Cons i rest)
  obtain evs ok where it: "iteration a (sessions i) i = (evs, ok)"
    by (cases "iteration a (sessions i) i")
  obtain evs' c' where sl: "send_loop a sessions rest (if ok then c + 1 else c) = (evs', c')"
    by (cases "send_loop a sessions rest (if ok then c + 1 else c)")
  from Cons.IH[of "if ok then c + 1 else c"] sl
  have "evs' = concat (map (\<lambda>i. fst (iteration a (sessions i) i)) rest)" by simp
  with it sl show ?case by simp
qed

lemma send_loop_count:
  "snd (send_loop a sessions is c) = c + length (filter (\<lambda>i. sessions i = SmtpOk) is)"
proof (induction "is" arbitrary: c)
  case Nil
  show ?case by simp
next
  case (Cons i rest)
  obtain evs ok where it: "iteration a (sessions i) i = (evs, ok)"
    by (cases "iteration a (sessions i) i")
  with iteration_result[of a "sessions i" i] have ok: "ok = (sessions i = SmtpOk)" by simp
  obtain evs' c' where sl: "send_loop a sessions rest (if ok then c + 1 else c) = (evs', c')"
    by (cases "send_loop a sessions rest (if ok then c + 1 else c)")
  from Cons.IH[of "if ok then c + 1 else c"] sl
  have "c' = (if ok then c + 1 else c) + length (filter (\<lambda>i. sessions i = SmtpOk) rest)"
    by simp
  with it sl ok show ?case by simp
qed

lemma opened_concat:
  "opened (concat (map (\<lambda>i. fst (iteration a (sessions i) i)) is)) = length is"
  by (induction "is") (simp_all add: iteration_opened)

lemma submitted_concat:
  "submitted (concat (map (\<lambda>i. fst (iteration a (sessions i) i)) is)) =
     map (message_for a) (filter (\<lambda>i. \<not> ends_before_sendmail (sessions i)) is)"
  by (induction "is") (simp_all add: iteration_submitted)

lemma inject_main_events:
  "fst (inject_main a sessions) =
     concat (map (\<lambda>i. fst (iteration a (sessions i) i)) (py_range (multiple a))) @
     [IPrint (Summary (fst (snd (inject_main a sessions))) (multiple a))] @
     (if fst (snd (inject_main a sessions)) > 0 then [IPrint ViewHint] else [])"
  using send_loop_events[of a sessions "py_range (multiple a)" 0]
  by (auto simp: inject_main_def split: prod.splits)

lemma inject_main_count:
  "fst (snd (inject_main a sessions)) =
     length (filter (\<lambda>i. sessions i = SmtpOk) (py_range (multiple a)))"
  using send_loop_count[of a sessions "py_range (multiple a)" 0]
  by (auto simp: inject_main_def split: prod.splits)

lemma inject_main_submitted:
  "submitted (fst (inject_main a sessions)) =
     map (message_for a) (filter (\<lambda>i. \<not> ends_before_sendmail (sessions i)) (py_range (multiple a)))"
  by (simp add: inject_main_events submitted_concat)

text \<open>
  C3. For a multiplicity \<open>n \<ge> 1\<close> the loop runs all \<open>n\<close> iterations whatever the earlier
  ones did: its events are those of iterations \<open>0, \<dots>, n - 1\<close> in order, each of which
  opens one SMTP session. An exception raised by any call of the \<open>try\<close> of an iteration
  ends that iteration with its failure line and the result \<open>False\<close>; an iteration returns
  \<open>True\<close> exactly when nothing raised. The count reported is the number of such
  iterations, at most \<open>n\<close>.
\<close>

theorem iterations_are_independent:
  assumes "1 \<le> multiple a"
  shows "fst (inject_main a sessions) =
           concat (map (\<lambda>i. fst (iteration a (sessions i) i)) [0..<nat (multiple a)]) @
           [IPrint (Summary (fst (snd (inject_main a sessions))) (multiple a))] @
           (if fst (snd (inject_main a sessions)) > 0 then [IPrint ViewHint] else []) \<and>
         opened (fst (inject_main a sessions)) = nat (multiple a) \<and>
         (\<forall>i. snd (iteration a (sessions i) i) = (raised (sessions i) = None)) \<and>
         (\<forall>i e. raised (sessions i) = Some e \<longrightarrow>
                  last (fst (iteration a (sessions i) i)) = failure_line a e) \<and>
         fst (snd (inject_main a sessions)) =
           length (filter (\<lambda>i. raised (sessions i) = None) [0..<nat (multiple a)]) \<and>
         fst (snd (inject_main a sessions)) \<le> nat (multiple a)"
proof -
  have c: "fst (snd (inject_main a sessions)) =
             length (filter (\<lambda>i. raised (sessions i) = None) [0..<nat (multiple a)])"
    using inject_main_count[of a sessions] by (simp add: py_range_def raised_None)
  have "length (filter (\<lambda>i. raised (sessions i) = None) [0..<nat (multiple a)])
          \<le> length [0..<nat (multiple a)]"
    by (rule length_filter_le)
  then have le: "fst (snd (inject_main a sessions)) \<le> nat (multiple a)"
    using c by simp
  have ev: "fst (inject_main a sessions) =
           concat (map (\<lambda>i. fst (iteration a (sessions i) i)) [0..<nat (multiple a)]) @
           [IPrint (Summary (fst (snd (inject_main a sessions))) (multiple a))] @
           (if fst (snd (inject_main a sessions)) > 0 then [IPrint ViewHint] else [])"
    using inject_main_events[of a sessions] by (simp add: py_range_def)
  have op: "opened (fst (inject_main a sessions)) = nat (multiple a)"
    by (subst ev) (simp add: opened_concat)
  have res: "\<forall>i. snd (iteration a (sessions i) i) = (raised (sessions i) = None)"
    by (simp add: iteration_result raised_None)
  have rep: "\<forall>i e. raised (sessions i) = Some e \<longrightarrow>
                  last (fst (iteration a (sessions i) i)) = failure_line a e"
    by (simp add: iteration_reports)
  from ev op c le res rep show ?thesis by blast
qed

lemma plain_args_positive: "1 \<le> multiple plain_args"
  by (simp add: plain_args_def)

theorem iterations_are_independent_witness:
  "1 \<le> multiple plain_args \<and>
   opened (fst (inject_main plain_args second_fails)) = 3 \<and>
   fst (snd (inject_main plain_args second_fails)) = 2 \<and>
   last (fst (iteration plain_args (second_fails 1) 1)) = IPrint (SendFailed SMTPException) \<and>
   opened (fst (inject_main plain_args header_refused)) = 3 \<and>
   fst (snd (inject_main plain_args header_refused)) = 0"
proof -
  have n: "nat (multiple plain_args) = 3"
    by (simp add: plain_args_def)
  have f: "length (filter (\<lambda>i. raised (second_fails i) = None) [0..<3]) = 2"
    by (simp add: second_fails_def upt_rec numeral_eq_Suc)
  have g: "length (filter (\<lambda>i. raised (header_refused i) = None) [0..<3]) = 0"
    by (simp add: header_refused_def)
  have r: "raised (second_fails 1) = Some SMTPException"
    by (simp add: second_fails_def)
  have h: "failure_line plain_args SMTPException = IPrint (SendFailed SMTPException)"
    by (simp add: failure_line_def plain_args_def)
  note t1 = iterations_are_independent [OF plain_args_positive, of second_fails]
  note t2 = iterations_are_independent [OF plain_args_positive, of header_refused]
  from t1 have a1: "opened (fst (inject_main plain_args second_fails)) = nat (multiple plain_args)"
    and a2: "fst (snd (inject_main plain_args second_fails)) =
           length (filter (\<lambda>i. raised (second_fails i) = None) [0..<nat (multiple plain_args)])"
    by blast+
  from t1 r have a3: "last (fst (iteration plain_args (second_fails 1) 1)) =
      failure_line plain_args SMTPException"
    by blast
  from t2 have b1: "opened (fst (inject_main plain_args header_refused)) = nat (multiple plain_args)"
    and b2: "fst (snd (inject_main plain_args header_refused)) =
           length (filter (\<lambda>i. raised (header_refused i) = None) [0..<nat (multiple plain_args)])"
    by blast+
  from a1 a2 a3 b1 b2 n f g h plain_args_positive show ?thesis by simp
qed

text \<open>
  C6, as the code has it. The messages submitted are those of the iterations that reach
  \<open>sendmail\<close>, in order. Every message goes to the address of the command line.
  In plain mode the sender is \<open>test@example.com\<close> and the subject of iteration \<open>i\<close>
  (counted from 0) is the base subject followed by \<open> #\<close> and \<open>i + 1\<close> when the multiplicity
  exceeds 1, the base subject itself otherwise. In HTML mode the sender is
  \<open>html-test@example.com\<close> and every message carries the same fixed subject.
\<close>

theorem subjects_by_mode:
  "submitted (fst (inject_main a sessions)) =
     map (message_for a) (filter (\<lambda>i. \<not> ends_before_sendmail (sessions i)) (py_range (multiple a))) \<and>
   msg_to (message_for a i) = email a \<and>
   msg_from (message_for a i) = (if html a then ''html-test@example.com'' else ''test@example.com'') \<and>
   msg_subject (message_for a i) =
     (if html a then html_subject
      else if multiple a > 1 then subject a @ '' #'' @ str_int (int i + 1)
      else subject a)"
  by (simp add: inject_main_submitted message_for_def html_message_def
      plain_message_def subject_for_def)

theorem subjects_by_mode_witness:
  "map msg_subject (submitted (fst (inject_main plain_args second_fails))) =
     [''Test #1'', ''Test #2'', ''Test #3'']"
proof -
  have r: "filter (\<lambda>i. \<not> ends_before_sendmail (second_fails i)) (py_range (multiple plain_args)) = [0, 1, 2]"
    by (simp add: plain_args_def second_fails_def py_range_def upt_rec numeral_eq_Suc)
  have s: "str_int 1 = ''1''" "str_int 2 = ''2''" "str_int 3 = ''3''"
    by code_simp+
  have m: "multiple plain_args > 1" "\<not> html plain_args" "subject plain_args = ''Test''"
    by (simp_all add: plain_args_def)
  show ?thesis
    using subjects_by_mode [of plain_args second_fails 0]
      subjects_by_mode [of plain_args second_fails 1]
      subjects_by_mode [of plain_args second_fails 2] r s m
    by simp
qed

text \<open>
  C6 as stated fails in HTML mode: with multiplicity 2 both messages carry the same
  sender and the same subject, which is neither \<open>Test #1\<close> nor \<open>Test #2\<close>.
\<close>

theorem html_subject_not_indexed:
  "map msg_subject (submitted (fst (inject_main html_args (\<lambda>i. SmtpOk)))) =
     [html_subject, html_subject] \<and>
   map msg_from (submitted (fst (inject_main html_args (\<lambda>i. SmtpOk)))) =
     [''html-test@example.com'', ''html-test@example.com''] \<and>
   html_subject \<noteq> subject html_args @ '' #1'' \<and>
   html_subject \<noteq> subject html_args @ '' #2''"
proof -
  have r: "py_range (multiple html_args) = [0, 1]"
    by (simp add: html_args_def py_range_def upt_rec numeral_eq_Suc)
  have l: "length html_subject = 23"
    by (simp add: html_subject_def)
  have n1: "html_subject \<noteq> subject html_args @ '' #1''"
  proof
    assume "html_subject = subject html_args @ '' #1''"
    then have "length html_subject = length (subject html_args @ '' #1'')" by simp
    with l show False by (simp add: html_args_def)
  qed
  have n2: "html_subject \<noteq> subject html_args @ '' #2''"
  proof
    assume "html_subject = subject html_args @ '' #2''"
    then have "length html_subject = length (subject html_args @ '' #2'')" by simp
    with l show False by (simp add: html_args_def)
  qed
  note n = n1 n2
  have h: "html html_args"
    by (simp add: html_args_def)
  have "submitted (fst (inject_main html_args (\<lambda>i. SmtpOk))) =
          map (message_for html_args) [0, 1]"
    by (simp add: inject_main_submitted r)
  with h have "submitted (fst (inject_main html_args (\<lambda>i. SmtpOk))) =
          [html_message (email html_args), html_message (email html_args)]"
    by (simp add: message_for_def)
  with n show ?thesis by (simp add: html_message_def)
qed

text \<open>
  C9. In HTML mode the run does not depend on \<open>--subject\<close> and \<open>--content\<close>: two
  command lines with the HTML flag, the same address and the same count produce the same
  events and the same result, and every message is the fixed HTML message.
\<close>

theorem html_ignores_subject_and_content:
  assumes "html a" "html b" "email a = email b" "multiple a = multiple b"
  shows "inject_main a sessions = inject_main b sessions \<and>
         message_for a i = html_message (email a) \<and>
         message_for b i = message_for a i \<and>
         msg_from (message_for a i) = ''html-test@example.com'' \<and>
         msg_subject (message_for a i) = html_subject \<and>
         msg_parts (message_for a i) = [(''plain'', html_text_part), (''html'', html_content)]"
proof -
  have it: "iteration a oc i = iteration b oc i" for oc i
    using assms by (simp add: iteration_def)
  have "send_loop a sessions is c = send_loop b sessions is c" for "is" c
    by (induction "is" arbitrary: c) (simp_all add: it)
  then have "inject_main a sessions = inject_main b sessions"
    using assms by (simp add: inject_main_def)
  with assms show ?thesis
    by (simp add: message_for_def html_message_def)
qed

lemma html_args_agree:
  "html html_args" "html html_args'" "email html_args = email html_args'"
  "multiple html_args = multiple html_args'"
  by (simp_all add: html_args_def html_args'_def)

theorem html_ignores_subject_and_content_witness:
  "html html_args \<and> html html_args' \<and> subject html_args \<noteq> subject html_args' \<and>
   content html_args \<noteq> content html_args' \<and>
   inject_main html_args second_fails = inject_main html_args' second_fails \<and>
   message_for html_args' 0 = message_for html_args 0"
  using html_ignores_subject_and_content [OF html_args_agree, of second_fails 0]
  by (simp add: html_args_def html_args'_def)

subsection \<open>The identifier format check\<close>














subsection \<open>Health fields\<close>






subsection \<open>Exit status\<close>


























end
